theory Spec2Isabelle
  imports Main
begin

section \<open>The build configuration \<^verbatim>\<open>astro.config.mjs\<close>\<close>

text \<open>
  The repository's only program text is the configuration module: seven import
  declarations and one default export, \<^verbatim>\<open>defineConfig({ ... })\<close>. The module is
  embedded as the value it denotes. Object literals are association lists in source
  order, array literals are lists, a call of an imported factory keeps the local name it
  is called through and its arguments, and the two icon-pack loaders keep the URL they
  fetch. Comments of the source are dropped.
\<close>

subsection \<open>Import declarations\<close>

datatype import_kind = DefaultImport | NamedImport

record import_decl =
  binding :: string
  kind :: import_kind
  specifier :: string

text \<open>
  \<^verbatim>\<open>
  import mdx from '@astrojs/mdx';
  import sitemap from '@astrojs/sitemap';
  import { defineConfig } from 'astro/config';
  import react from '@astrojs/react';
  import tailwindcss from '@tailwindcss/vite';
  import mermaid from 'astro-mermaid';
  import { use } from 'react';
  \<close>
\<close>

definition imports_decls :: "import_decl list" where
  "imports_decls =
    [\<lparr>binding = ''mdx'', kind = DefaultImport, specifier = ''@astrojs/mdx''\<rparr>,
     \<lparr>binding = ''sitemap'', kind = DefaultImport, specifier = ''@astrojs/sitemap''\<rparr>,
     \<lparr>binding = ''defineConfig'', kind = NamedImport, specifier = ''astro/config''\<rparr>,
     \<lparr>binding = ''react'', kind = DefaultImport, specifier = ''@astrojs/react''\<rparr>,
     \<lparr>binding = ''tailwindcss'', kind = DefaultImport, specifier = ''@tailwindcss/vite''\<rparr>,
     \<lparr>binding = ''mermaid'', kind = DefaultImport, specifier = ''astro-mermaid''\<rparr>,
     \<lparr>binding = ''use'', kind = NamedImport, specifier = ''react''\<rparr>]"

text \<open>The module a local name is bound to, if it is imported at all.\<close>

definition resolve :: "string \<Rightarrow> string option" where
  "resolve f = map_of (map (\<lambda>d. (binding d, specifier d)) imports_decls) f"

subsection \<open>Values of the configuration\<close>

text \<open>
  \<open>FetchJson u\<close> stands for the arrow function
  \<^verbatim>\<open>() => fetch(u).then(res => res.json())\<close>, the only shape of function the
  module contains; \<open>loader\<close> below gives its meaning.
\<close>

datatype js_value =
    JStr string
  | JBool bool
  | JObj "(string \<times> js_value) list"
  | JArr "js_value list"
  | JCall string "js_value list"
  | FetchJson string

text \<open>
  \<^verbatim>\<open>
  mermaid({
    theme: 'forest',
    autoTheme: true,
    mermaidConfig: {
      useMaxWidth: false,
      flowchart: { curve: 'basis', useMaxWidth: false }
    },
    iconPacks: [
      { name: 'logos',
        loader: () => fetch('https://unpkg.com/@iconify-json/logos@1/icons.json').then(res => res.json()) },
      { name: 'iconoir',
        loader: () => fetch('https://unpkg.com/@iconify-json/iconoir@1/icons.json').then(res => res.json()) }
    ]
  })
  \<close>
\<close>

definition mermaid_call :: js_value where
  "mermaid_call =
    JCall ''mermaid''
      [JObj
        [(''theme'', JStr ''forest''),
         (''autoTheme'', JBool True),
         (''mermaidConfig'',
            JObj [(''useMaxWidth'', JBool False),
                  (''flowchart'',
                     JObj [(''curve'', JStr ''basis''),
                           (''useMaxWidth'', JBool False)])]),
         (''iconPacks'',
            JArr [JObj [(''name'', JStr ''logos''),
                        (''loader'',
                           FetchJson ''https://unpkg.com/@iconify-json/logos@1/icons.json'')],
                  JObj [(''name'', JStr ''iconoir''),
                        (''loader'',
                           FetchJson ''https://unpkg.com/@iconify-json/iconoir@1/icons.json'')]])]]"

text \<open>
  \<^verbatim>\<open>
  export default defineConfig({
    site: 'https://divyesh.is-cool.dev',
    integrations: [mdx(), sitemap(), react(), mermaid({ ... })],
    vite: { plugins: [tailwindcss()] },
  });
  \<close>
\<close>

definition default_export :: js_value where
  "default_export =
    JCall ''defineConfig''
      [JObj
        [(''site'', JStr ''https://divyesh.is-cool.dev''),
         (''integrations'',
            JArr [JCall ''mdx'' [], JCall ''sitemap'' [], JCall ''react'' [], mermaid_call]),
         (''vite'', JObj [(''plugins'', JArr [JCall ''tailwindcss'' []])])]]"

subsection \<open>Reading the configuration\<close>

text \<open>
  Property access \<^verbatim>\<open>o.k\<close>: of a repeated key in an object literal the last
  wins; anything that is not an object has no own property here.
\<close>

fun get :: "string \<Rightarrow> js_value \<Rightarrow> js_value option" where
  "get k (JObj kvs) = map_of (rev kvs) k"
| "get k _ = None"

fun keys :: "js_value \<Rightarrow> string list" where
  "keys (JObj kvs) = map fst kvs"
| "keys _ = []"

fun elements :: "js_value option \<Rightarrow> js_value list" where
  "elements (Some (JArr vs)) = vs"
| "elements _ = []"

fun callee_module :: "js_value \<Rightarrow> string option" where
  "callee_module (JCall f args) = resolve f"
| "callee_module _ = None"

fun call_args :: "js_value \<Rightarrow> js_value list" where
  "call_args (JCall f args) = args"
| "call_args _ = []"

text \<open>
  \<^verbatim>\<open>defineConfig\<close> (of \<^verbatim>\<open>astro/config\<close>) hands its argument back
  unchanged, so the configuration object is the single argument of the exported call.
\<close>

definition user_config :: js_value where
  "user_config =
    (case call_args default_export of
       [c] \<Rightarrow> (if callee_module default_export = Some ''astro/config'' then c else JObj [])
     | _ \<Rightarrow> JObj [])"

definition integrations :: "js_value list" where
  "integrations = elements (get ''integrations'' user_config)"

definition vite_plugins :: "js_value list" where
  "vite_plugins =
    (case get ''vite'' user_config of
       None \<Rightarrow> []
     | Some v \<Rightarrow> elements (get ''plugins'' v))"

text \<open>The argument lists of the registered integrations that come from module \<open>m\<close>.\<close>

definition options_of :: "string \<Rightarrow> js_value list list" where
  "options_of m = map call_args (filter (\<lambda>c. callee_module c = Some m) integrations)"

text \<open>
  The options object handed to the diagram plugin: the arguments of every registered
  call that comes from \<^verbatim>\<open>astro-mermaid\<close>, in order.
\<close>

definition mermaid_options :: "js_value list" where
  "mermaid_options = concat (options_of ''astro-mermaid'')"

text \<open>
  Nested property access \<^verbatim>\<open>o.k1.k2\<close>, and the own keys of what it reaches:
  \<open>None\<close> when a step is missing or goes through something that is not an object.
\<close>

fun at :: "string list \<Rightarrow> js_value \<Rightarrow> js_value option" where
  "at [] v = Some v"
| "at (k # ks) v = (case get k v of None \<Rightarrow> None | Some w \<Rightarrow> at ks w)"

definition keys_at :: "string list \<Rightarrow> js_value \<Rightarrow> string list option" where
  "keys_at ks v = map_option keys (at ks v)"

text \<open>The keys of each element of the array under key \<open>k\<close>, element by element.\<close>

definition entry_keys :: "string \<Rightarrow> js_value \<Rightarrow> string list list" where
  "entry_keys k v = map keys (elements (get k v))"

subsection \<open>The icon-pack loaders\<close>

text \<open>
  The two loaders are the only functions the module defines. \<^verbatim>\<open>fetch(u)\<close>
  gives a promise that is rejected when the request itself fails and fulfilled with a
  response otherwise, whatever its HTTP status; \<^verbatim>\<open>res.json()\<close> is rejected when
  the body is not JSON. The platform is a parameter: \<open>fetch\<close> answers a request from
  the requests made so far and the URL, \<open>parse\<close> reads a body. The loader has one
  \<^verbatim>\<open>then\<close> with one handler and no \<^verbatim>\<open>catch\<close>.
\<close>

datatype js_error = TypeError | SyntaxError

datatype 'a promise = Fulfilled 'a | Rejected js_error

record response =
  status :: nat
  body :: string

definition promise_then :: "'a promise \<Rightarrow> ('a \<Rightarrow> 'b promise) \<Rightarrow> 'b promise" where
  "promise_then p on_fulfilled =
    (case p of Rejected e \<Rightarrow> Rejected e | Fulfilled v \<Rightarrow> on_fulfilled v)"

definition res_json :: "(string \<Rightarrow> 'j option) \<Rightarrow> response \<Rightarrow> 'j promise" where
  "res_json parse res =
    (case parse (body res) of None \<Rightarrow> Rejected SyntaxError | Some j \<Rightarrow> Fulfilled j)"

text \<open>
  Calling a loader with the requests made so far: the promise it returns and the
  requests made after it. A value that is not a loader is not called.
\<close>

fun loader ::
  "(string list \<Rightarrow> string \<Rightarrow> response promise) \<Rightarrow> (string \<Rightarrow> 'j option) \<Rightarrow>
     js_value \<Rightarrow> string list \<Rightarrow> ('j promise \<times> string list) option" where
  "loader fetch parse (FetchJson u) reqs =
     Some (promise_then (fetch reqs u) (res_json parse), reqs @ [u])"
| "loader fetch parse v reqs = None"

text \<open>The loaders the configuration hands to the diagram plugin, in source order.\<close>

definition icon_pack_loaders :: "js_value list" where
  "icon_pack_loaders =
    concat (map (\<lambda>pack. case get ''loader'' pack of None \<Rightarrow> [] | Some l \<Rightarrow> [l])
      (concat (map (\<lambda>opts. elements (get ''iconPacks'' opts))
         mermaid_options)))"

section \<open>Properties of the configuration\<close>

lemma integrations_eq:
  "integrations = [JCall ''mdx'' [], JCall ''sitemap'' [], JCall ''react'' [], mermaid_call]"
  by (simp add: integrations_def user_config_def default_export_def resolve_def
      imports_decls_def)

lemma site_is_fixed: "get ''site'' user_config = Some (JStr ''https://divyesh.is-cool.dev'')"
  by (simp add: user_config_def default_export_def resolve_def imports_decls_def)

lemma sitemap_has_no_options: "options_of ''@astrojs/sitemap'' = [[]]"
  by (simp add: options_of_def integrations_eq mermaid_call_def resolve_def imports_decls_def)

lemma auto_theme_is_on:
  "map (get ''autoTheme'') mermaid_options = [Some (JBool True)]"
  by (simp add: mermaid_options_def options_of_def integrations_eq mermaid_call_def resolve_def imports_decls_def)

lemma icon_pack_loaders_eq:
  "icon_pack_loaders =
     [FetchJson ''https://unpkg.com/@iconify-json/logos@1/icons.json'',
      FetchJson ''https://unpkg.com/@iconify-json/iconoir@1/icons.json'']"
  by (simp add: icon_pack_loaders_def mermaid_options_def options_of_def integrations_eq mermaid_call_def
      resolve_def imports_decls_def)

text \<open>
  C5. The configuration registers exactly four integrations, in this order: the MDX
  extension, the sitemap generator and the React adapter, each called without options,
  and the mermaid diagram plugin, called with exactly one argument. That argument is an
  object whose keys are exactly \<open>theme\<close>, \<open>autoTheme\<close>, \<open>mermaidConfig\<close> and
  \<open>iconPacks\<close>; \<open>mermaidConfig\<close> is an object with exactly the keys
  \<open>useMaxWidth\<close> and \<open>flowchart\<close>, and \<open>flowchart\<close> one with exactly \<open>curve\<close>
  and \<open>useMaxWidth\<close>; \<open>iconPacks\<close> is an array of two entries, each an object with
  exactly the keys \<open>name\<close> and \<open>loader\<close>. The only Vite plugin is the Tailwind CSS
  plugin, called without options, and the configuration object has no key besides
  \<open>site\<close>, \<open>integrations\<close> and \<open>vite\<close>.
\<close>

theorem config_registers_enumerated_integrations:
  "map callee_module integrations =
     [Some ''@astrojs/mdx'', Some ''@astrojs/sitemap'', Some ''@astrojs/react'',
      Some ''astro-mermaid'']
   \<and> options_of ''@astrojs/mdx'' = [[]]
   \<and> options_of ''@astrojs/sitemap'' = [[]]
   \<and> options_of ''@astrojs/react'' = [[]]
   \<and> map length (options_of ''astro-mermaid'') = [1]
   \<and> map keys mermaid_options =
     [[''theme'', ''autoTheme'', ''mermaidConfig'', ''iconPacks'']]
   \<and> map (keys_at [''mermaidConfig'']) mermaid_options =
     [Some [''useMaxWidth'', ''flowchart'']]
   \<and> map (keys_at [''mermaidConfig'', ''flowchart'']) mermaid_options =
     [Some [''curve'', ''useMaxWidth'']]
   \<and> map (entry_keys ''iconPacks'') mermaid_options =
     [[[''name'', ''loader''], [''name'', ''loader'']]]
   \<and> map callee_module vite_plugins = [Some ''@tailwindcss/vite'']
   \<and> map call_args vite_plugins = [[]]
   \<and> keys user_config = [''site'', ''integrations'', ''vite'']"
  by (simp add: mermaid_options_def keys_at_def entry_keys_def options_of_def
      vite_plugins_def integrations_eq mermaid_call_def user_config_def default_export_def
      resolve_def imports_decls_def)

section \<open>Properties of the loaders\<close>

text \<open>A loader makes one request, to its own URL, whatever the outcome.\<close>

lemma loader_one_request:
  "loader fetch parse (FetchJson u) reqs = Some (p, reqs') \<Longrightarrow> reqs' = reqs @ [u]"
  by simp

text \<open>A rejected request is the loader's rejection: nothing handles it.\<close>

lemma loader_rejection_propagates:
  "fetch reqs u = Rejected e \<Longrightarrow>
   loader fetch parse (FetchJson u) reqs = Some (Rejected e, reqs @ [u])"
  by (simp add: promise_then_def)

text \<open>A response whose body is not JSON rejects the loader.\<close>

lemma loader_rejects_non_json:
  "fetch reqs u = Fulfilled res \<Longrightarrow> parse (body res) = None \<Longrightarrow>
   loader fetch parse (FetchJson u) reqs = Some (Rejected SyntaxError, reqs @ [u])"
  by (simp add: promise_then_def res_json_def)

text \<open>The HTTP status is never read: a JSON body fulfils the loader under any status.\<close>

lemma loader_ignores_status:
  "fetch reqs u = Fulfilled res \<Longrightarrow> parse (body res) = Some j \<Longrightarrow>
   loader fetch parse (FetchJson u) reqs = Some (Fulfilled j, reqs @ [u])"
  by (simp add: promise_then_def res_json_def)

end
